theory Spec2Isabelle
  imports Complex_Main "HOL-Library.Char_ord" "HOL-Library.List_Lexorder"
begin

section \<open>OKS evaluation script (oks\_eval.py): data model\<close>

text \<open>
  The script computes with NumPy \<open>float64\<close> values. They are modelled as real numbers:
  every finite result is the exact real result (rounding, overflow and underflow of
  binary64 are not modelled). The two ways the script can obtain a non-finite value from
  finite inputs, a division by zero and the mean of an empty array, are modelled with the
  special values of \<open>npfloat\<close>; the two IEEE zeros are not distinguished (a zero divisor
  counts as \<open>+0.0\<close>). The underflow of the exponential is modelled apart, in
  \<open>exp_b64\<close> and \<open>calculate_oks_b64\<close>.
\<close>

datatype npfloat = Fin real | PInf | NInf | NaN

text \<open>The exceptions the script can raise. \<open>ExtractorError\<close> stands for any exception
  raised inside the image pipeline (\<open>cv2.imread\<close>, \<open>HWC3\<close>, \<open>resize_image\<close>,
  \<open>apply_openpose\<close>), \<open>OSError\<close> for a failure of \<open>os.listdir\<close>.\<close>

datatype error = AssertionError | AxisError | IndexError | ValueError
  | ExtractorError | OSError

type_synonym point = "real \<times> real"

text \<open>The keypoint arrays of the script: \<open>np.array(keypoints)\<close> is the one-dimensional
  empty array of shape \<open>(0,)\<close> when \<open>keypoints\<close> is empty, and an array of shape
  \<open>(n, 2)\<close> otherwise. \<open>Points ps\<close> is the array of shape \<open>(length ps, 2)\<close>, which is
  the shape the docstring of \<open>calculate_oks\<close> names.\<close>

datatype ndarray = Empty1D | Points "point list"

fun shape :: "ndarray \<Rightarrow> nat list" where
  "shape Empty1D = [0]"
| "shape (Points ps) = [length ps, 2]"

definition np_array :: "point list \<Rightarrow> ndarray" where
  "np_array keypoints = (if keypoints = [] then Empty1D else Points keypoints)"

subsection \<open>NumPy operations used by the script\<close>

text \<open>\<open>np.finfo(float).eps\<close>: the machine epsilon of binary64.\<close>

definition eps :: real where
  "eps = 1 / 2 ^ 52"

text \<open>\<open>a - b\<close> on two keypoint arrays of equal shape (the assertion of
  \<open>calculate_oks\<close> has passed when it is evaluated).\<close>

fun np_subtract :: "ndarray \<Rightarrow> ndarray \<Rightarrow> ndarray" where
  "np_subtract (Points ps) (Points qs) =
     Points (map2 (\<lambda>p q. (fst p - fst q, snd p - snd q)) ps qs)"
| "np_subtract _ _ = Empty1D"

text \<open>\<open>a ** 2\<close>, elementwise.\<close>

fun np_square :: "ndarray \<Rightarrow> ndarray" where
  "np_square (Points ps) = Points (map (\<lambda>p. ((fst p)\<^sup>2, (snd p)\<^sup>2)) ps)"
| "np_square Empty1D = Empty1D"

text \<open>\<open>np.sum(a, axis=1)\<close>: the row sums of a two-dimensional array; a one-dimensional
  array has no axis 1.\<close>

fun np_sum_axis1 :: "ndarray \<Rightarrow> error + real list" where
  "np_sum_axis1 (Points ps) = Inr (map (\<lambda>p. fst p + snd p) ps)"
| "np_sum_axis1 Empty1D = Inl AxisError"

text \<open>Division of two float64 values.\<close>

fun np_div :: "npfloat \<Rightarrow> npfloat \<Rightarrow> npfloat" where
  "np_div (Fin x) (Fin y) =
     (if y \<noteq> 0 then Fin (x / y)
      else if x = 0 then NaN else if 0 < x then PInf else NInf)"
| "np_div (Fin x) PInf = Fin 0"
| "np_div (Fin x) NInf = Fin 0"
| "np_div PInf (Fin y) = (if 0 \<le> y then PInf else NInf)"
| "np_div NInf (Fin y) = (if 0 \<le> y then NInf else PInf)"
| "np_div PInf PInf = NaN"
| "np_div PInf NInf = NaN"
| "np_div NInf PInf = NaN"
| "np_div NInf NInf = NaN"
| "np_div NaN _ = NaN"
| "np_div _ NaN = NaN"

fun np_add :: "npfloat \<Rightarrow> npfloat \<Rightarrow> npfloat" where
  "np_add (Fin x) (Fin y) = Fin (x + y)"
| "np_add NaN _ = NaN"
| "np_add _ NaN = NaN"
| "np_add PInf NInf = NaN"
| "np_add NInf PInf = NaN"
| "np_add PInf _ = PInf"
| "np_add _ PInf = PInf"
| "np_add NInf _ = NInf"
| "np_add _ NInf = NInf"

fun np_exp :: "npfloat \<Rightarrow> npfloat" where
  "np_exp (Fin x) = Fin (exp x)"
| "np_exp PInf = PInf"
| "np_exp NInf = Fin 0"
| "np_exp NaN = NaN"

text \<open>A binary operation on two one-dimensional arrays, with NumPy's broadcasting: equal
  lengths go elementwise, an array of length 1 is stretched, anything else raises
  \<open>ValueError\<close> (operands could not be broadcast together).\<close>

definition np_broadcast :: "('a \<Rightarrow> 'b \<Rightarrow> 'c) \<Rightarrow> 'a list \<Rightarrow> 'b list \<Rightarrow> error + 'c list" where
  "np_broadcast f xs ys =
     (if length xs = length ys then Inr (map2 f xs ys)
      else if length xs = 1 then Inr (map (f (hd xs)) ys)
      else if length ys = 1 then Inr (map (\<lambda>x. f x (hd ys)) xs)
      else Inl ValueError)"

text \<open>\<open>np.mean\<close> of a one-dimensional array or list: the sum divided by the number of
  elements; for no elements this is \<open>0.0 / 0\<close>, that is \<open>nan\<close>.\<close>

definition np_sum :: "npfloat list \<Rightarrow> npfloat" where
  "np_sum xs = foldl np_add (Fin 0) xs"

definition np_mean :: "npfloat list \<Rightarrow> npfloat" where
  "np_mean xs = np_div (np_sum xs) (Fin (real (length xs)))"

section \<open>calculate\_oks\<close>

text \<open>
  \<^verbatim>\<open>
  def calculate_oks(pred_keypoints, gt_keypoints, sigmas, bbox_area):
      assert pred_keypoints.shape == gt_keypoints.shape, "Keypoints shape mismatch"
      dists = np.sum((pred_keypoints - gt_keypoints) ** 2, axis=1)
      variances = (2 * (sigmas ** 2)) * (bbox_area + np.finfo(float).eps)
      oks_scores = np.exp(-dists / variances)
      return np.mean(oks_scores)
  \<close>
  \<open>sigmas\<close> is a one-dimensional array of finite values, the keypoint arrays hold finite
  coordinates and \<open>bbox_area\<close> is a finite scalar.
\<close>

definition calculate_oks :: "ndarray \<Rightarrow> ndarray \<Rightarrow> real list \<Rightarrow> real \<Rightarrow> error + npfloat" where
  "calculate_oks pred_keypoints gt_keypoints sigmas bbox_area =
     (if shape pred_keypoints \<noteq> shape gt_keypoints then Inl AssertionError
      else (case np_sum_axis1 (np_square (np_subtract pred_keypoints gt_keypoints)) of
        Inl e \<Rightarrow> Inl e
      | Inr dists \<Rightarrow>
          (let variances =
                 map (\<lambda>v. v * (bbox_area + eps)) (map (\<lambda>v. 2 * v) (map (\<lambda>s. s\<^sup>2) sigmas))
           in (case np_broadcast (\<lambda>d v. np_div (Fin d) (Fin v)) (map uminus dists) variances of
             Inl e \<Rightarrow> Inl e
           | Inr quotients \<Rightarrow>
               (let oks_scores = map np_exp quotients
                in Inr (np_mean oks_scores))))))"


text \<open>The scorer as the specification words it: for each index \<open>i\<close> the squared Euclidean
  distance \<open>d_i\<close>, the variance scale \<open>v_i = 2 * sigmas[i]\<^sup>2 * (area + \<epsilon>)\<close>, the
  similarity \<open>s_i = exp (- d_i / v_i)\<close>, and the arithmetic mean of the \<open>s_i\<close>.\<close>

definition spec_sq_dist :: "point list \<Rightarrow> point list \<Rightarrow> nat \<Rightarrow> real" where
  "spec_sq_dist predicted reference i =
     (fst (predicted ! i) - fst (reference ! i))\<^sup>2
       + (snd (predicted ! i) - snd (reference ! i))\<^sup>2"

definition spec_variance :: "real list \<Rightarrow> real \<Rightarrow> nat \<Rightarrow> real" where
  "spec_variance sigmas area i = 2 * (sigmas ! i)\<^sup>2 * (area + eps)"

definition spec_similarity :: "point list \<Rightarrow> point list \<Rightarrow> real list \<Rightarrow> real \<Rightarrow> nat \<Rightarrow> real" where
  "spec_similarity predicted reference sigmas area i =
     exp (- spec_sq_dist predicted reference i / spec_variance sigmas area i)"

definition spec_score :: "point list \<Rightarrow> point list \<Rightarrow> real list \<Rightarrow> real \<Rightarrow> real" where
  "spec_score predicted reference sigmas area =
     (\<Sum>i\<leftarrow>[0..<length reference]. spec_similarity predicted reference sigmas area i)
       / real (length reference)"

subsection \<open>The exponential of binary64\<close>

text \<open>\<open>calculate_oks\<close> above keeps the exact exponential, which is what the formula of
  the score is stated with. The exponential of binary64 differs from it where it
  underflows: for an argument below \<open>-745.14\<close> the result is smaller than half the least
  positive binary64 number and \<open>np.exp\<close> returns \<open>0.0\<close>. \<open>exp_b64\<close> has this underflow
  (from \<open>-746\<close> on), and \<open>calculate_oks_b64\<close> is the body of \<open>calculate_oks\<close> with
  it; the rounding of the finite results is not modelled in either.\<close>

definition exp_b64 :: "real \<Rightarrow> real" where
  "exp_b64 x = (if x < - 746 then 0 else exp x)"

fun np_exp_b64 :: "npfloat \<Rightarrow> npfloat" where
  "np_exp_b64 (Fin x) = Fin (exp_b64 x)"
| "np_exp_b64 PInf = PInf"
| "np_exp_b64 NInf = Fin 0"
| "np_exp_b64 NaN = NaN"

definition calculate_oks_b64 :: "ndarray \<Rightarrow> ndarray \<Rightarrow> real list \<Rightarrow> real \<Rightarrow> error + npfloat" where
  "calculate_oks_b64 pred_keypoints gt_keypoints sigmas bbox_area =
     (if shape pred_keypoints \<noteq> shape gt_keypoints then Inl AssertionError
      else (case np_sum_axis1 (np_square (np_subtract pred_keypoints gt_keypoints)) of
        Inl e \<Rightarrow> Inl e
      | Inr dists \<Rightarrow>
          (let variances =
                 map (\<lambda>v. v * (bbox_area + eps)) (map (\<lambda>v. 2 * v) (map (\<lambda>s. s\<^sup>2) sigmas))
           in (case np_broadcast (\<lambda>d v. np_div (Fin d) (Fin v)) (map uminus dists) variances of
             Inl e \<Rightarrow> Inl e
           | Inr quotients \<Rightarrow>
               (let oks_scores = map np_exp_b64 quotients
                in Inr (np_mean oks_scores))))))"

text \<open>The similarity \<open>s_i\<close> of the specification, with the exponential of binary64.\<close>

definition b64_similarity :: "point list \<Rightarrow> point list \<Rightarrow> real list \<Rightarrow> real \<Rightarrow> nat \<Rightarrow> real" where
  "b64_similarity predicted reference sigmas area i =
     exp_b64 (- spec_sq_dist predicted reference i / spec_variance sigmas area i)"

subsection \<open>calculate\_oks on array objects\<close>

text \<open>The same function with its arrays as objects in a store, to say what a call does to
  the arrays it is given. An address is an index into the store. Every NumPy expression of
  the body (\<open>a - b\<close>, \<open>a ** 2\<close>, \<open>np.sum\<close>, \<open>2 * a\<close>, \<open>a * x\<close>, \<open>-a\<close>, \<open>a / b\<close>,
  \<open>np.exp\<close>) builds a new array; the body has no assignment to an element or to a slice
  and no \<open>out=\<close> argument. The result is \<open>None\<close> when an address does not hold an array
  of the documented kind.\<close>

datatype obj = KeypointArray ndarray | FloatArray "real list" | ScoreArray "npfloat list"

type_synonym store = "obj list"

definition alloc :: "obj \<Rightarrow> store \<Rightarrow> store" where
  "alloc v h = h @ [v]"

definition calculate_oks_store ::
  "store \<Rightarrow> nat \<Rightarrow> nat \<Rightarrow> nat \<Rightarrow> real \<Rightarrow> ((error + npfloat) \<times> store) option" where
  "calculate_oks_store h p g s bbox_area =
     (if p < length h \<and> g < length h \<and> s < length h then
        (case (h ! p, h ! g, h ! s) of
           (KeypointArray pred_keypoints, KeypointArray gt_keypoints, FloatArray sigmas) \<Rightarrow>
             Some
              (if shape pred_keypoints \<noteq> shape gt_keypoints then (Inl AssertionError, h)
               else
                 (let diff = np_subtract pred_keypoints gt_keypoints;
                      h1 = alloc (KeypointArray diff) h;
                      squares = np_square diff;
                      h2 = alloc (KeypointArray squares) h1
                  in (case np_sum_axis1 squares of
                        Inl e \<Rightarrow> (Inl e, h2)
                      | Inr dists \<Rightarrow>
                          (let h3 = alloc (FloatArray dists) h2;
                               squared = map (\<lambda>s. s\<^sup>2) sigmas;
                               h4 = alloc (FloatArray squared) h3;
                               doubled = map (\<lambda>v. 2 * v) squared;
                               h5 = alloc (FloatArray doubled) h4;
                               variances = map (\<lambda>v. v * (bbox_area + eps)) doubled;
                               h6 = alloc (FloatArray variances) h5;
                               negated = map uminus dists;
                               h7 = alloc (FloatArray negated) h6
                           in (case np_broadcast (\<lambda>d v. np_div (Fin d) (Fin v)) negated variances of
                                 Inl e \<Rightarrow> (Inl e, h7)
                               | Inr quotients \<Rightarrow>
                                   (let h8 = alloc (ScoreArray quotients) h7;
                                        oks_scores = map np_exp quotients;
                                        h9 = alloc (ScoreArray oks_scores) h8
                                    in (Inr (np_mean oks_scores), h9)))))))
         | _ \<Rightarrow> None)
      else None)"

section \<open>extract\_pose\<close>

text \<open>
  \<^verbatim>\<open>
  def extract_pose(image_path):
      image = cv2.imread(image_path)
      image = resize_image(HWC3(image), 512)
      detected_map, _ = apply_openpose(image)
      keypoints = []
      for point in detected_map:
          if point is not None:
              keypoints.append([point[0], point[1]])
      return np.array(keypoints)
  \<close>
  The image pipeline is outside the script. The environment gives, for a path, the
  \<open>detected_map\<close> it produces (one entry per joint, \<open>None\<close> for a joint that was not
  detected) or the exception it raises; it also gives the directory listing and the
  existence test of the file system.
\<close>

record env =
  listdir :: "string \<Rightarrow> error + string list"
  path_exists :: "string \<Rightarrow> bool"
  detected_map :: "string \<Rightarrow> error + point option list"

text \<open>The \<open>for\<close> loop over \<open>detected_map\<close>, with \<open>keypoints\<close> as accumulator.\<close>

fun collect_keypoints :: "point option list \<Rightarrow> point list \<Rightarrow> point list" where
  "collect_keypoints [] keypoints = keypoints"
| "collect_keypoints (point # rest) keypoints =
     (case point of
        None \<Rightarrow> collect_keypoints rest keypoints
      | Some xy \<Rightarrow> collect_keypoints rest (keypoints @ [(fst xy, snd xy)]))"

definition extract_pose :: "env \<Rightarrow> string \<Rightarrow> error + ndarray" where
  "extract_pose e image_path =
     (case detected_map e image_path of
        Inl err \<Rightarrow> Inl err
      | Inr dm \<Rightarrow> Inr (np_array (collect_keypoints dm [])))"

text \<open>The number of keypoints of an array (\<open>shape[0]\<close>).\<close>

fun num_keypoints :: "ndarray \<Rightarrow> nat" where
  "num_keypoints Empty1D = 0"
| "num_keypoints (Points ps) = length ps"

section \<open>The batch loop\<close>

definition ground_truth_folder :: string where
  "ground_truth_folder = ''poses''"

definition generated_images_folder :: string where
  "generated_images_folder = ''generated_images''"

text \<open>The module-level array \<open>sigmas\<close> (COCO standard), 17 entries.\<close>

definition coco_sigmas :: "real list" where
  "coco_sigmas = [0.26, 0.25, 0.25, 0.35, 0.35, 0.79, 0.79, 0.72, 0.72,
                  0.62, 0.62, 1.07, 1.07, 0.87, 0.87, 0.89, 0.89]"

text \<open>\<open>Path(name).stem\<close> for a bare file name, as \<open>os.listdir\<close> returns them: the name
  without its last suffix; a dot in first or in last position starts no suffix.\<close>

definition stem :: "string \<Rightarrow> string" where
  "stem name =
     (if CHR ''.'' \<notin> set name then name
      else (let i = length name - length (takeWhile (\<lambda>c. c \<noteq> CHR ''.'') (rev name)) - 1
            in if 0 < i \<and> i < length name - 1 then take i name else name))"

text \<open>\<open>os.path.join(a, b)\<close> on POSIX.\<close>

definition os_path_join :: "string \<Rightarrow> string \<Rightarrow> string" where
  "os_path_join a b =
     (if b \<noteq> [] \<and> hd b = CHR ''/'' then b
      else if a = [] \<or> last a = CHR ''/'' then a @ b
      else a @ ''/'' @ b)"

text \<open>\<open>np.max(a[:, c])\<close> and \<open>np.min(a[:, c])\<close>: a column of a one-dimensional array
  cannot be indexed (\<open>IndexError\<close>), and an empty column has no maximum or minimum
  (\<open>ValueError\<close>).\<close>

fun column :: "ndarray \<Rightarrow> (point \<Rightarrow> real) \<Rightarrow> error + real list" where
  "column Empty1D c = Inl IndexError"
| "column (Points ps) c = Inr (map c ps)"

fun np_max :: "real list \<Rightarrow> error + real" where
  "np_max [] = Inl ValueError"
| "np_max (x # xs) = Inr (fold max xs x)"

fun np_min :: "real list \<Rightarrow> error + real" where
  "np_min [] = Inl ValueError"
| "np_min (x # xs) = Inr (fold min xs x)"

text \<open>Sequencing of computations that may raise.\<close>

definition and_then :: "error + 'a \<Rightarrow> ('a \<Rightarrow> error + 'b) \<Rightarrow> error + 'b" where
  "and_then m f = (case m of Inl e \<Rightarrow> Inl e | Inr x \<Rightarrow> f x)"

text \<open>
  \<^verbatim>\<open>
  bbox_area = (np.max(gt_keypoints[:, 0]) - np.min(gt_keypoints[:, 0])) * \
              (np.max(gt_keypoints[:, 1]) - np.min(gt_keypoints[:, 1]))
  \<close>
\<close>

definition compute_bbox_area :: "ndarray \<Rightarrow> error + real" where
  "compute_bbox_area gt_keypoints =
     and_then (and_then (column gt_keypoints fst) np_max) (\<lambda>max_x.
     and_then (and_then (column gt_keypoints fst) np_min) (\<lambda>min_x.
     and_then (and_then (column gt_keypoints snd) np_max) (\<lambda>max_y.
     and_then (and_then (column gt_keypoints snd) np_min) (\<lambda>min_y.
     Inr ((max_x - min_x) * (max_y - min_y))))))"

text \<open>What the script prints (the progress bar of \<open>tqdm\<close> is left out), and the state of
  the loop: the lines printed so far and the list \<open>oks_scores\<close>.\<close>

datatype printed =
    NotFoundLine string
  | ScoreLine string npfloat
  | SummaryHeader
  | AverageLine npfloat
  | ScoresLine "npfloat list"

record run_state =
  stdout :: "printed list"
  oks_scores :: "npfloat list"

definition initial_state :: run_state where
  "initial_state = \<lparr>stdout = [], oks_scores = []\<rparr>"

text \<open>
  One iteration of
  \<^verbatim>\<open>
  for gt_file in tqdm(sorted(os.listdir(ground_truth_folder))):
      image_file = os.path.join(generated_images_folder, f"{Path(gt_file).stem}.png")
      if not os.path.exists(image_file):
          print(f"Generated image not found for {gt_file}")
          continue
      gt_keypoints = extract_pose(os.path.join(ground_truth_folder, gt_file))
      pred_keypoints = extract_pose(image_file)
      bbox_area = ...
      oks_score = calculate_oks(pred_keypoints, gt_keypoints, sigmas, bbox_area)
      oks_scores.append(oks_score)
      print(f"{gt_file}: OKS = {oks_score:.4f}")
  \<close>
  The body has no \<open>try\<close>: an exception leaves the loop. It is raised before the body
  appends or prints anything, so the state is then the one the iteration started with.
\<close>

definition candidate_path :: "string \<Rightarrow> string" where
  "candidate_path gt_file = os_path_join generated_images_folder (stem gt_file @ ''.png'')"

definition loop_body :: "env \<Rightarrow> string \<Rightarrow> run_state \<Rightarrow> error + run_state" where
  "loop_body e gt_file st =
     (let image_file = candidate_path gt_file in
      if \<not> path_exists e image_file
      then Inr (st\<lparr>stdout := stdout st @ [NotFoundLine gt_file]\<rparr>)
      else
        and_then (extract_pose e (os_path_join ground_truth_folder gt_file)) (\<lambda>gt_keypoints.
        and_then (extract_pose e image_file) (\<lambda>pred_keypoints.
        and_then (compute_bbox_area gt_keypoints) (\<lambda>bbox_area.
        and_then (calculate_oks pred_keypoints gt_keypoints coco_sigmas bbox_area) (\<lambda>oks_score.
        Inr (st\<lparr>oks_scores := oks_scores st @ [oks_score],
                 stdout := stdout st @ [ScoreLine gt_file oks_score]\<rparr>))))))"

fun batch_loop :: "env \<Rightarrow> string list \<Rightarrow> run_state \<Rightarrow> run_state \<times> error option" where
  "batch_loop e [] st = (st, None)"
| "batch_loop e (gt_file # rest) st =
     (case loop_body e gt_file st of
        Inl err \<Rightarrow> (st, Some err)
      | Inr st' \<Rightarrow> batch_loop e rest st')"

text \<open>
  The summary, printed when the loop has ended without an exception:
  \<^verbatim>\<open>
  print("\nEvaluation Summary:")
  print(f"Average OKS Score: {np.mean(oks_scores):.4f}")
  print(f"OKS Scores: {oks_scores}")
  \<close>
\<close>

definition print_summary :: "run_state \<Rightarrow> run_state" where
  "print_summary st =
     st\<lparr>stdout := stdout st @
        [SummaryHeader, AverageLine (np_mean (oks_scores st)), ScoresLine (oks_scores st)]\<rparr>"

text \<open>The whole script: the final state, and the exception that ended it, if any.
  \<open>sorted\<close> orders the file names by code point; \<open>sort\<close> on strings is the
  lexicographic order of their characters.\<close>

definition main :: "env \<Rightarrow> run_state \<times> error option" where
  "main e =
     (case listdir e ground_truth_folder of
        Inl err \<Rightarrow> (initial_state, Some err)
      | Inr names \<Rightarrow>
          (case batch_loop e (sort names) initial_state of
             (st, Some err) \<Rightarrow> (st, Some err)
           | (st, None) \<Rightarrow> (print_summary st, None)))"

section \<open>Reading the printed lines\<close>

text \<open>The per-pair lines of a run are the not-found lines and the score lines;
  \<open>scores_of\<close> reads the scores of the score lines, in order.\<close>

fun scores_of :: "printed list \<Rightarrow> npfloat list" where
  "scores_of [] = []"
| "scores_of (ScoreLine gt_file s # ls) = s # scores_of ls"
| "scores_of (_ # ls) = scores_of ls"

fun pair_line :: "printed \<Rightarrow> bool" where
  "pair_line (NotFoundLine f) = True"
| "pair_line (ScoreLine f s) = True"
| "pair_line _ = False"

section \<open>Example runs\<close>

text \<open>A detection with all 17 joints, used for reference and candidate images alike.\<close>

definition full_skeleton :: "point option list" where
  "full_skeleton =
     [Some (10, 5), Some (11, 4), Some (9, 4), Some (12, 5), Some (8, 5), Some (14, 10),
      Some (6, 10), Some (15, 16), Some (5, 16), Some (15, 22), Some (5, 22), Some (13, 24),
      Some (7, 24), Some (13, 33), Some (7, 33), Some (13, 42), Some (7, 42)]"

text \<open>Reference folder \<open>{a.png, b.png}\<close>, candidate folder \<open>{a.png}\<close>.\<close>

definition missing_candidate_env :: env where
  "missing_candidate_env =
     \<lparr>listdir = (\<lambda>d. if d = ''poses'' then Inr [''b.png'', ''a.png''] else Inl OSError),
      path_exists = (\<lambda>p. p = ''generated_images/a.png''),
      detected_map = (\<lambda>p. Inr full_skeleton)\<rparr>"

text \<open>Both candidates exist; in the candidate image of \<open>a.png\<close> one joint is not
  detected.\<close>

definition shape_mismatch_env :: env where
  "shape_mismatch_env =
     \<lparr>listdir = (\<lambda>d. if d = ''poses'' then Inr [''a.png'', ''b.png''] else Inl OSError),
      path_exists = (\<lambda>p. True),
      detected_map = (\<lambda>p. if p = ''generated_images/a.png''
                           then Inr (None # tl full_skeleton) else Inr full_skeleton)\<rparr>"

text \<open>Both candidates exist; the image pipeline fails on the reference image
  \<open>b.png\<close>.\<close>

definition extractor_failure_env :: env where
  "extractor_failure_env =
     \<lparr>listdir = (\<lambda>d. if d = ''poses'' then Inr [''a.png'', ''b.png''] else Inl OSError),
      path_exists = (\<lambda>p. True),
      detected_map = (\<lambda>p. if p = ''poses/b.png'' then Inl ExtractorError
                           else Inr full_skeleton)\<rparr>"

text \<open>Both candidates exist; no joint is detected in the reference image \<open>a.png\<close>.\<close>

definition no_keypoints_env :: env where
  "no_keypoints_env =
     \<lparr>listdir = (\<lambda>d. if d = ''poses'' then Inr [''a.png'', ''b.png''] else Inl OSError),
      path_exists = (\<lambda>p. True),
      detected_map = (\<lambda>p. if p = ''poses/a.png'' then Inr [None, None, None]
                           else Inr full_skeleton)\<rparr>"

text \<open>One reference image, no candidate.\<close>

definition all_missing_env :: env where
  "all_missing_env =
     \<lparr>listdir = (\<lambda>d. if d = ''poses'' then Inr [''a.png''] else Inl OSError),
      path_exists = (\<lambda>p. False),
      detected_map = (\<lambda>p. Inr full_skeleton)\<rparr>"

text \<open>A detection in which the second of three joints is missing.\<close>

definition dropped_joint_env :: env where
  "dropped_joint_env =
     \<lparr>listdir = (\<lambda>d. Inr []),
      path_exists = (\<lambda>p. True),
      detected_map = (\<lambda>p. Inr [Some (1, 2), None, Some (3, 4)])\<rparr>"

text \<open>A store holding two keypoint arrays and a sigma array.\<close>

definition example_store :: store where
  "example_store =
     [KeypointArray (Points [(0, 0), (3, 4)]), KeypointArray (Points [(0, 0), (0, 0)]),
      FloatArray [1, 2]]"

text \<open>The keypoints of the full detection, as a reference pose.\<close>

definition reference_pose :: "point list" where
  "reference_pose = map the full_skeleton"

text \<open>One reference image with its candidate; the image pipeline fails on every image.\<close>

definition unreadable_image_env :: env where
  "unreadable_image_env =
     \<lparr>listdir = (\<lambda>d. if d = ''poses'' then Inr [''a.png''] else Inl OSError),
      path_exists = (\<lambda>p. True),
      detected_map = (\<lambda>p. Inl ExtractorError)\<rparr>"

section \<open>Properties of calculate\_oks\<close>

lemma eps_pos: "0 < eps"
  by (simp add: eps_def)

lemma np_sum_Fin_aux: "foldl np_add (Fin a) (map Fin xs) = Fin (a + sum_list xs)"
  by (induction xs arbitrary: a) (simp_all add: add.assoc)

lemma np_sum_Fin: "np_sum (map Fin xs) = Fin (sum_list xs)"
  by (simp add: np_sum_def np_sum_Fin_aux)

lemma np_mean_Fin:
  "np_mean (map Fin xs) = (if xs = [] then NaN else Fin (sum_list xs / real (length xs)))"
  by (simp add: np_mean_def np_sum_Fin)

lemma np_mean_Fin_upt:
  "np_mean (map Fin (map f [0..<n]))
   = (if n = 0 then NaN else Fin (sum_list (map f [0..<n]) / real n))"
  unfolding np_mean_Fin by simp

lemma map2_nth:
  "length xs = length ys \<Longrightarrow> map2 f xs ys = map (\<lambda>i. f (xs ! i) (ys ! i)) [0..<length ys]"
  by (rule nth_equalityI) simp_all

lemma dists_Points:
  assumes "length ps = length qs"
  shows "np_sum_axis1 (np_square (np_subtract (Points ps) (Points qs)))
     = Inr (map (spec_sq_dist ps qs) [0..<length qs])"
proof -
  have "map2 (\<lambda>p q. (fst p - fst q, snd p - snd q)) ps qs
        = map (\<lambda>i. (fst (ps ! i) - fst (qs ! i), snd (ps ! i) - snd (qs ! i))) [0..<length qs]"
    using assms by (rule map2_nth)
  then show ?thesis
    by (simp add: spec_sq_dist_def comp_def)
qed

lemma spec_variance_pos:
  assumes "i < length sigmas" "\<forall>s\<in>set sigmas. 0 < s" "0 \<le> area"
  shows "0 < spec_variance sigmas area i"
proof -
  have "0 < sigmas ! i" using assms(1,2) by simp
  moreover have "0 < area + eps" using assms(3) eps_pos by simp
  ultimately show ?thesis by (simp add: spec_variance_def)
qed

lemma variances_nth:
  "length sigmas = n \<Longrightarrow>
   map (\<lambda>v. v * (area + eps)) (map (\<lambda>v. 2 * v) (map (\<lambda>s. s\<^sup>2) sigmas))
     = map (spec_variance sigmas area) [0..<n]"
  by (rule nth_equalityI) (simp_all add: spec_variance_def)

lemma quotients_finite:
  assumes "length sigmas = n" "\<forall>s\<in>set sigmas. 0 < s" "0 \<le> area"
  shows "np_broadcast (\<lambda>d v. np_div (Fin d) (Fin v)) (map uminus (map d [0..<n]))
           (map (spec_variance sigmas area) [0..<n])
         = Inr (map (\<lambda>i. Fin (- d i / spec_variance sigmas area i)) [0..<n])"
proof -
  have "map2 (\<lambda>d v. np_div (Fin d) (Fin v)) (map uminus (map d [0..<n]))
           (map (spec_variance sigmas area) [0..<n])
        = map (\<lambda>i. np_div (Fin (- d i)) (Fin (spec_variance sigmas area i))) [0..<n]"
    by (rule nth_equalityI) simp_all
  also have "\<dots> = map (\<lambda>i. Fin (- d i / spec_variance sigmas area i)) [0..<n]"
  proof (rule map_cong [OF refl])
    fix i assume "i \<in> set [0..<n]"
    then have "i < length sigmas" using assms(1) by simp
    then have "0 < spec_variance sigmas area i"
      using assms(2,3) by (rule spec_variance_pos)
    then show "np_div (Fin (- d i)) (Fin (spec_variance sigmas area i))
               = Fin (- d i / spec_variance sigmas area i)"
      by simp
  qed
  finally show ?thesis
    by (simp add: np_broadcast_def)
qed

text \<open>On valid input the code computes the mean of the similarities, as finite values.\<close>

lemma calculate_oks_valid:
  assumes "length predicted = length reference"
    and "length sigmas = length reference"
    and "\<forall>s\<in>set sigmas. 0 < s"
    and "0 \<le> area"
  shows "calculate_oks (Points predicted) (Points reference) sigmas area
         = Inr (np_mean (map Fin (map (spec_similarity predicted reference sigmas area)
                  [0..<length reference])))"
proof -
  let ?n = "length reference"
  have "calculate_oks (Points predicted) (Points reference) sigmas area
        = Inr (np_mean (map np_exp (map (\<lambda>i. Fin (- spec_sq_dist predicted reference i
                 / spec_variance sigmas area i)) [0..<?n])))"
    by (simp only: calculate_oks_def Let_def dists_Points [OF assms(1)] sum.case
      variances_nth [OF assms(2)] quotients_finite [OF assms(2,3,4)] shape.simps assms(1)
      simp_thms if_False)
  also have "map np_exp (map (\<lambda>i. Fin (- spec_sq_dist predicted reference i
                 / spec_variance sigmas area i)) [0..<?n])
             = map Fin (map (spec_similarity predicted reference sigmas area) [0..<?n])"
    by (simp add: spec_similarity_def)
  finally show ?thesis .
qed

text \<open>
  Claim C1. For keypoint sequences \<open>predicted\<close> and \<open>reference\<close> of equal length \<open>K\<close>,
  \<open>K\<close> positive sigmas and a non-negative area, \<open>calculate_oks\<close> returns the arithmetic
  mean over all indices \<open>i\<close> of \<open>exp (- d_i / v_i)\<close>, with \<open>d_i\<close> the squared Euclidean
  distance of the two keypoints at \<open>i\<close> and \<open>v_i = 2 * sigmas[i]\<^sup>2 * (area + eps)\<close>. With
  no keypoint at all (\<open>K = 0\<close>) there is nothing to average and NumPy's mean is \<open>nan\<close>.
\<close>

theorem calculate_oks_is_mean_of_similarities:
  assumes "length predicted = length reference"
    and "length sigmas = length reference"
    and "\<forall>s\<in>set sigmas. 0 < s"
    and "0 \<le> area"
  shows "calculate_oks (Points predicted) (Points reference) sigmas area
         = Inr (if reference = [] then NaN
                else Fin (spec_score predicted reference sigmas area))"
  unfolding calculate_oks_valid [OF assms]
  by (simp only: np_mean_Fin_upt spec_score_def length_0_conv)

theorem calculate_oks_is_mean_of_similarities_witness:
  "length ([(0, 0), (3, 4)] :: point list) = length ([(0, 0), (0, 0)] :: point list)
   \<and> length [1, 2 :: real] = length ([(0, 0), (0, 0)] :: point list)
   \<and> (0 :: real) < 1 \<and> (0 :: real) < 2 \<and> (0 :: real) \<le> 1
   \<and> calculate_oks (Points [(0, 0), (3, 4)]) (Points [(0, 0), (0, 0)]) [1, 2] 1
       = Inr (Fin ((1 + exp (- 25 / (8 * (1 + eps)))) / 2))"
  using calculate_oks_is_mean_of_similarities
    [of "[(0, 0), (3, 4)]" "[(0, 0), (0, 0)]" "[1, 2]" 1]
  by (simp add: spec_score_def spec_similarity_def spec_sq_dist_def spec_variance_def)

section \<open>Properties of the batch loop\<close>

lemma scores_of_append: "scores_of (xs @ ys) = scores_of xs @ scores_of ys"
  by (induction xs rule: scores_of.induct) simp_all

lemma loop_body_missing:
  "\<not> path_exists e (candidate_path gt_file) \<Longrightarrow>
   loop_body e gt_file st = Inr (st\<lparr>stdout := stdout st @ [NotFoundLine gt_file]\<rparr>)"
  by (simp add: loop_body_def)

lemma loop_body_cases:
  assumes "loop_body e gt_file st = Inr st'"
  shows "(st' = st\<lparr>stdout := stdout st @ [NotFoundLine gt_file]\<rparr>)
       \<or> (\<exists>s. st' = st\<lparr>oks_scores := oks_scores st @ [s],
                         stdout := stdout st @ [ScoreLine gt_file s]\<rparr>)"
  using assms
  by (auto simp: loop_body_def Let_def and_then_def split: if_splits sum.splits)

lemma loop_body_invariant:
  assumes "loop_body e gt_file st = Inr st'" "oks_scores st = scores_of (stdout st)"
    "\<forall>l\<in>set (stdout st). pair_line l"
  shows "oks_scores st' = scores_of (stdout st') \<and> (\<forall>l\<in>set (stdout st'). pair_line l)"
  using loop_body_cases [OF assms(1)] assms(2,3)
  by (auto simp: scores_of_append)

lemma batch_loop_invariant:
  assumes "batch_loop e files st = (st', err)" "oks_scores st = scores_of (stdout st)"
    "\<forall>l\<in>set (stdout st). pair_line l"
  shows "oks_scores st' = scores_of (stdout st') \<and> (\<forall>l\<in>set (stdout st'). pair_line l)"
  using assms
proof (induction files arbitrary: st)
  case Nil
  then show ?case by simp
next
  case (Cons f files)
  show ?case
  proof (cases "loop_body e f st")
    case (Inl x)
    with Cons.prems show ?thesis by simp
  next
    case (Inr st1)
    from loop_body_invariant [OF Inr Cons.prems(2,3)]
    have "oks_scores st1 = scores_of (stdout st1)" "\<forall>l\<in>set (stdout st1). pair_line l"
      by simp_all
    moreover from Cons.prems(1) Inr have "batch_loop e files st1 = (st', err)" by simp
    ultimately show ?thesis by (rule Cons.IH [rotated])
  qed
qed

lemma main_completed:
  assumes "main e = (st, None)"
  shows "\<exists>lines. stdout st = lines @ [SummaryHeader, AverageLine (np_mean (scores_of lines)),
                                      ScoresLine (scores_of lines)]
          \<and> oks_scores st = scores_of lines \<and> (\<forall>l\<in>set lines. pair_line l)"
proof -
  from assms obtain names st0 where
    names: "listdir e ground_truth_folder = Inr names"
    and loop: "batch_loop e (sort names) initial_state = (st0, None)"
    and st: "st = print_summary st0"
    by (auto simp: main_def split: sum.splits prod.splits option.splits)
  have "oks_scores st0 = scores_of (stdout st0) \<and> (\<forall>l\<in>set (stdout st0). pair_line l)"
    by (rule batch_loop_invariant [OF loop]) (simp_all add: initial_state_def)
  then show ?thesis
    by (simp add: st print_summary_def)
qed

text \<open>
  Claim C3. For a reference entry with no candidate file the loop prints the line
  ``Generated image not found for ...'' (its record of the skipped pair), adds no score,
  and goes on with the remaining entries; in a run that completes, the printed average is
  the mean of the scores of the score lines alone. For reference folder
  \<open>{a.png, b.png}\<close> and candidate folder \<open>{a.png}\<close> the run prints exactly two
  per-pair lines, one score and one not-found line, and the average is that of the one
  scored pair.
\<close>

theorem missing_candidate_is_skipped:
  assumes "\<not> path_exists e (candidate_path gt_file)"
  shows "loop_body e gt_file st = Inr (st\<lparr>stdout := stdout st @ [NotFoundLine gt_file]\<rparr>)
       \<and> batch_loop e (gt_file # rest) st
           = batch_loop e rest (st\<lparr>stdout := stdout st @ [NotFoundLine gt_file]\<rparr>)
       \<and> (\<forall>final. main e = (final, None) \<longrightarrow>
            (\<exists>lines. stdout final = lines @ [SummaryHeader,
                 AverageLine (np_mean (scores_of lines)), ScoresLine (scores_of lines)]
               \<and> (\<forall>l\<in>set lines. pair_line l)))"
  using loop_body_missing [OF assms] main_completed by (simp, blast)

lemma candidate_path_a: "candidate_path ''a.png'' = ''generated_images/a.png''"
  and candidate_path_b: "candidate_path ''b.png'' = ''generated_images/b.png''"
  by (simp_all add: candidate_path_def stem_def os_path_join_def generated_images_folder_def)

lemma calculate_oks_same:
  assumes "length sigmas = length ps" "ps \<noteq> []" "\<forall>s\<in>set sigmas. 0 < s" "0 \<le> area"
  shows "calculate_oks (Points ps) (Points ps) sigmas area = Inr (Fin 1)"
proof -
  have "map (spec_similarity ps ps sigmas area) [0..<length ps] = map (\<lambda>i. 1) [0..<length ps]"
    by (simp add: spec_similarity_def spec_sq_dist_def)
  then have "calculate_oks (Points ps) (Points ps) sigmas area
             = Inr (np_mean (map Fin (map (\<lambda>i. 1) [0..<length ps])))"
    by (simp only: calculate_oks_valid [OF refl assms(1,3,4)])
  also have "np_mean (map Fin (map (\<lambda>i. 1) [0..<length ps])) = Fin 1"
    unfolding np_mean_Fin_upt using assms(2) by (simp add: sum_list_triv)
  finally show ?thesis .
qed

lemma coco_sigmas_ok: "length coco_sigmas = 17" "\<forall>s\<in>set coco_sigmas. 0 < s"
  by (simp_all add: coco_sigmas_def)

lemma full_skeleton_bbox:
  "compute_bbox_area (Points (map the full_skeleton)) = Inr 380"
  by (simp add: full_skeleton_def compute_bbox_area_def and_then_def)

lemma full_skeleton_score:
  assumes "detected_map e p = Inr full_skeleton" "detected_map e q = Inr full_skeleton"
  shows "and_then (extract_pose e p) (\<lambda>gt_keypoints.
     and_then (extract_pose e q) (\<lambda>pred_keypoints.
     and_then (compute_bbox_area gt_keypoints) (\<lambda>bbox_area.
     and_then (calculate_oks pred_keypoints gt_keypoints coco_sigmas bbox_area) f)))
   = f (Fin 1)"
proof -
  have pose: "np_array (collect_keypoints full_skeleton []) = Points (map the full_skeleton)"
    by (simp add: full_skeleton_def np_array_def)
  have "calculate_oks (Points (map the full_skeleton)) (Points (map the full_skeleton))
          coco_sigmas 380 = Inr (Fin 1)"
    by (rule calculate_oks_same) (simp_all add: coco_sigmas_ok full_skeleton_def)
  then show ?thesis
    by (simp add: extract_pose_def assms pose and_then_def full_skeleton_bbox)
qed

theorem missing_candidate_is_skipped_witness:
  "\<not> path_exists missing_candidate_env (candidate_path ''b.png'')
   \<and> main missing_candidate_env =
       (\<lparr>stdout = [ScoreLine ''a.png'' (Fin 1), NotFoundLine ''b.png'', SummaryHeader,
                   AverageLine (Fin 1), ScoresLine [Fin 1]],
         oks_scores = [Fin 1]\<rparr>, None)"
  using missing_candidate_is_skipped [of missing_candidate_env "''b.png''"
      "\<lparr>stdout = [ScoreLine ''a.png'' (Fin 1)], oks_scores = [Fin 1]\<rparr>" "[]"]
  by (simp add: main_def missing_candidate_env_def ground_truth_folder_def initial_state_def
      candidate_path_a candidate_path_b loop_body_def full_skeleton_score print_summary_def
      np_mean_def np_sum_def)

lemma reference_path_a: "os_path_join ground_truth_folder ''a.png'' = ''poses/a.png''"
  and reference_path_b: "os_path_join ground_truth_folder ''b.png'' = ''poses/b.png''"
  by (simp_all add: os_path_join_def ground_truth_folder_def)

lemma batch_loop_append:
  "batch_loop e before st0 = (st, None) \<Longrightarrow>
   batch_loop e (before @ files) st0 = batch_loop e files st"
  by (induction before arbitrary: st0) (auto split: sum.splits)

lemma loop_body_raises_iff:
  "loop_body e gt_file st = Inl err \<longleftrightarrow>
     path_exists e (candidate_path gt_file) \<and>
     (extract_pose e (os_path_join ground_truth_folder gt_file) = Inl err
      \<or> (\<exists>gt_keypoints. extract_pose e (os_path_join ground_truth_folder gt_file) = Inr gt_keypoints
           \<and> (extract_pose e (candidate_path gt_file) = Inl err
              \<or> (\<exists>pred_keypoints. extract_pose e (candidate_path gt_file) = Inr pred_keypoints
                   \<and> (compute_bbox_area gt_keypoints = Inl err
                      \<or> (\<exists>bbox_area. compute_bbox_area gt_keypoints = Inr bbox_area
                           \<and> calculate_oks pred_keypoints gt_keypoints coco_sigmas bbox_area
                               = Inl err))))))"
  by (auto simp: loop_body_def Let_def and_then_def split: sum.splits)

text \<open>
  Claim C2, as amended. The loop catches no exception. When the iteration for a reference
  entry raises (the candidate file exists, and \<open>extract_pose\<close> on either image, the
  bounding-box computation or \<open>calculate_oks\<close> raises), the run ends there with that
  exception: the lines and scores of the earlier entries stand, nothing is recorded for
  the entry, the remaining entries are not processed and no summary is printed. As stated,
  the claim fails: a shape mismatch on \<open>a.png\<close> ends the run before \<open>b.png\<close>.
\<close>

theorem exception_ends_the_run:
  assumes "listdir e ground_truth_folder = Inr names"
    and "sort names = before @ gt_file # rest"
    and "batch_loop e before initial_state = (st, None)"
    and "loop_body e gt_file st = Inl err"
  shows "main e = (st, Some err) \<and> path_exists e (candidate_path gt_file)
       \<and> (extract_pose e (os_path_join ground_truth_folder gt_file) = Inl err
          \<or> extract_pose e (candidate_path gt_file) = Inl err
          \<or> (\<exists>gt_keypoints.
                extract_pose e (os_path_join ground_truth_folder gt_file) = Inr gt_keypoints
                \<and> (compute_bbox_area gt_keypoints = Inl err
                   \<or> (\<exists>pred_keypoints bbox_area.
                         extract_pose e (candidate_path gt_file) = Inr pred_keypoints
                         \<and> calculate_oks pred_keypoints gt_keypoints coco_sigmas bbox_area
                             = Inl err))))"
proof -
  have "batch_loop e (sort names) initial_state = (st, Some err)"
    using assms(2,4) batch_loop_append [OF assms(3)] by simp
  then have "main e = (st, Some err)"
    using assms(1) by (simp add: main_def)
  moreover from assms(4) have "path_exists e (candidate_path gt_file)"
    by (simp add: loop_body_raises_iff)
  moreover from assms(4) have
    "extract_pose e (os_path_join ground_truth_folder gt_file) = Inl err
          \<or> extract_pose e (candidate_path gt_file) = Inl err
          \<or> (\<exists>gt_keypoints.
                extract_pose e (os_path_join ground_truth_folder gt_file) = Inr gt_keypoints
                \<and> (compute_bbox_area gt_keypoints = Inl err
                   \<or> (\<exists>pred_keypoints bbox_area.
                         extract_pose e (candidate_path gt_file) = Inr pred_keypoints
                         \<and> calculate_oks pred_keypoints gt_keypoints coco_sigmas bbox_area
                             = Inl err)))"
    unfolding loop_body_raises_iff by blast
  ultimately show ?thesis by blast
qed

theorem exception_ends_the_run_counterexample:
  "main shape_mismatch_env = (\<lparr>stdout = [], oks_scores = []\<rparr>, Some AssertionError)"
proof -
  have "loop_body shape_mismatch_env ''a.png'' initial_state = Inl AssertionError"
    by (simp add: loop_body_def candidate_path_a reference_path_a shape_mismatch_env_def
        extract_pose_def full_skeleton_def np_array_def and_then_def compute_bbox_area_def
        calculate_oks_def)
  then show ?thesis
    by (simp add: main_def shape_mismatch_env_def ground_truth_folder_def initial_state_def)
qed

theorem exception_ends_the_run_witness:
  "listdir extractor_failure_env ground_truth_folder = Inr [''a.png'', ''b.png'']
   \<and> sort [''a.png'', ''b.png''] = [''a.png''] @ ''b.png'' # []
   \<and> batch_loop extractor_failure_env [''a.png''] initial_state
       = (\<lparr>stdout = [ScoreLine ''a.png'' (Fin 1)], oks_scores = [Fin 1]\<rparr>, None)
   \<and> loop_body extractor_failure_env ''b.png''
        \<lparr>stdout = [ScoreLine ''a.png'' (Fin 1)], oks_scores = [Fin 1]\<rparr> = Inl ExtractorError
   \<and> main extractor_failure_env
       = (\<lparr>stdout = [ScoreLine ''a.png'' (Fin 1)], oks_scores = [Fin 1]\<rparr>, Some ExtractorError)"
proof -
  have 1: "listdir extractor_failure_env ground_truth_folder = Inr [''a.png'', ''b.png'']"
    by (simp add: extractor_failure_env_def ground_truth_folder_def)
  have 2: "sort [''a.png'', ''b.png''] = [''a.png''] @ ''b.png'' # []"
    by simp
  have 3: "batch_loop extractor_failure_env [''a.png''] initial_state
       = (\<lparr>stdout = [ScoreLine ''a.png'' (Fin 1)], oks_scores = [Fin 1]\<rparr>, None)"
    by (simp add: loop_body_def candidate_path_a reference_path_a full_skeleton_score
        extractor_failure_env_def initial_state_def)
  have 4: "loop_body extractor_failure_env ''b.png''
        \<lparr>stdout = [ScoreLine ''a.png'' (Fin 1)], oks_scores = [Fin 1]\<rparr> = Inl ExtractorError"
    by (simp add: loop_body_def candidate_path_b reference_path_b extract_pose_def
        extractor_failure_env_def and_then_def)
  from exception_ends_the_run [OF 1 2 3 4] 1 2 3 4 show ?thesis by simp
qed

lemma only_not_found_lines:
  "\<forall>l\<in>set lines. pair_line l \<Longrightarrow> scores_of lines = [] \<Longrightarrow>
   \<forall>l\<in>set lines. \<exists>gt_file. l = NotFoundLine gt_file"
proof (induction lines)
  case Nil
  show ?case by simp
next
  case (Cons l lines)
  then show ?case by (cases l) simp_all
qed

section \<open>Properties of extract\_pose\<close>

lemma collect_keypoints_filter:
  "collect_keypoints dm keypoints = keypoints @ map the (filter (\<lambda>p. p \<noteq> None) dm)"
  by (induction dm arbitrary: keypoints) (auto split: option.splits)

lemma length_filter_eq_all:
  "length (filter P xs) = length xs \<longleftrightarrow> (\<forall>x\<in>set xs. P x)"
proof (induction xs)
  case Nil
  show ?case by simp
next
  case (Cons x xs)
  have le: "length (filter P xs) \<le> length xs"
    by (rule length_filter_le)
  show ?case
  proof (cases "P x")
    case True
    with Cons show ?thesis by simp
  next
    case False
    have "length (filter P xs) \<noteq> Suc (length xs)"
      using le by linarith
    with False show ?thesis by simp
  qed
qed

lemma length_filter_eq_iff:
  "length (filter (\<lambda>p. p \<noteq> None) dm) = length dm \<longleftrightarrow> None \<notin> set dm"
  unfolding length_filter_eq_all by metis

lemma num_keypoints_np_array: "num_keypoints (np_array ps) = length ps"
  by (simp add: np_array_def)

text \<open>
  Claim C5, as amended. \<open>extract_pose\<close> omits the undetected joints: when the image
  pipeline returns a \<open>detected_map\<close>, the result is the array of the detected entries
  in their order, its number of keypoints is the number of detected joints, and this is
  the length of \<open>detected_map\<close> exactly when every joint was detected. As stated, the
  claim fails: with the second of three joints undetected the array has two rows, and
  the third joint stands at index 1.
\<close>

theorem extract_pose_omits_undetected:
  assumes "detected_map e image_path = Inr dm"
  shows "extract_pose e image_path = Inr (np_array (map the (filter (\<lambda>p. p \<noteq> None) dm)))
       \<and> num_keypoints (np_array (map the (filter (\<lambda>p. p \<noteq> None) dm)))
           = length (filter (\<lambda>p. p \<noteq> None) dm)
       \<and> (num_keypoints (np_array (map the (filter (\<lambda>p. p \<noteq> None) dm))) = length dm
            \<longleftrightarrow> None \<notin> set dm)"
proof -
  have "length (filter (\<lambda>p. p \<noteq> None) dm) = length dm \<longleftrightarrow> None \<notin> set dm"
    by (rule length_filter_eq_iff)
  then show ?thesis
    using assms by (simp add: extract_pose_def collect_keypoints_filter num_keypoints_np_array)
qed

theorem extract_pose_omits_undetected_counterexample:
  "detected_map dropped_joint_env ''pose.png'' = Inr [Some (1, 2), None, Some (3, 4)]
   \<and> extract_pose dropped_joint_env ''pose.png'' = Inr (Points [(1, 2), (3, 4)])"
  by (simp add: dropped_joint_env_def extract_pose_def np_array_def)

theorem extract_pose_omits_undetected_witness:
  "detected_map dropped_joint_env ''pose.png'' = Inr [Some (1, 2), None, Some (3, 4)]
   \<and> extract_pose dropped_joint_env ''pose.png'' = Inr (np_array [(1, 2), (3, 4)])
   \<and> num_keypoints (np_array [(1, 2), (3, 4)]) = 2"
  using extract_pose_omits_undetected [of dropped_joint_env "''pose.png''"
      "[Some (1, 2), None, Some (3, 4)]"]
  by (simp add: dropped_joint_env_def)

section \<open>Shape checks of calculate\_oks\<close>

lemma assertion_on_shapes:
  "shape pred_keypoints \<noteq> shape gt_keypoints \<Longrightarrow>
   calculate_oks pred_keypoints gt_keypoints sigmas area = Inl AssertionError"
  by (simp add: calculate_oks_def)

lemma calculate_oks_Points:
  "length ps = length qs \<Longrightarrow>
   calculate_oks (Points ps) (Points qs) sigmas area =
     (case np_broadcast (\<lambda>d v. np_div (Fin d) (Fin v))
             (map uminus (map (spec_sq_dist ps qs) [0..<length qs]))
             (map (\<lambda>v. v * (area + eps)) (map (\<lambda>v. 2 * v) (map (\<lambda>s. s\<^sup>2) sigmas))) of
        Inl e \<Rightarrow> Inl e
      | Inr quotients \<Rightarrow> Inr (np_mean (map np_exp quotients)))"
  by (simp only: calculate_oks_def Let_def dists_Points sum.case shape.simps simp_thms if_False)

text \<open>
  Claim C6, as amended. \<open>calculate_oks\<close> raises \<open>AssertionError\<close> (``Keypoints shape
  mismatch'') whenever the shapes of the two keypoint arrays differ. When both have \<open>K\<close>
  keypoints and the length of \<open>sigmas\<close> differs from \<open>K\<close>, it raises NumPy's
  broadcasting \<open>ValueError\<close> if neither length is 1; when \<open>sigmas\<close> has length 1 or
  \<open>K = 1\<close> the arrays broadcast and a score is returned. As stated, the claim fails:
  two keypoints and one sigma give the score 1.0.
\<close>

theorem shape_errors_of_calculate_oks:
  "(shape pred_keypoints \<noteq> shape gt_keypoints \<longrightarrow>
      calculate_oks pred_keypoints gt_keypoints sigmas area = Inl AssertionError)
   \<and> (length ps = length qs \<and> length sigmas \<noteq> length qs \<and> length qs \<noteq> 1
        \<and> length sigmas \<noteq> 1 \<longrightarrow>
      calculate_oks (Points ps) (Points qs) sigmas area = Inl ValueError)
   \<and> (length ps = length qs \<and> (length sigmas = 1 \<or> length qs = 1) \<longrightarrow>
      (\<exists>score. calculate_oks (Points ps) (Points qs) sigmas area = Inr score))"
proof (intro conjI impI)
  assume "shape pred_keypoints \<noteq> shape gt_keypoints"
  then show "calculate_oks pred_keypoints gt_keypoints sigmas area = Inl AssertionError"
    by (rule assertion_on_shapes)
next
  assume "length ps = length qs \<and> length sigmas \<noteq> length qs \<and> length qs \<noteq> 1
        \<and> length sigmas \<noteq> 1"
  then show "calculate_oks (Points ps) (Points qs) sigmas area = Inl ValueError"
    by (simp add: calculate_oks_Points np_broadcast_def del: np_div.simps(1))
next
  assume "length ps = length qs \<and> (length sigmas = 1 \<or> length qs = 1)"
  then show "\<exists>score. calculate_oks (Points ps) (Points qs) sigmas area = Inr score"
    by (auto simp: calculate_oks_Points np_broadcast_def simp del: np_div.simps(1))
qed

theorem shape_errors_of_calculate_oks_counterexample:
  "calculate_oks (Points [(0, 0), (3, 4)]) (Points [(0, 0), (3, 4)]) [1] 0 = Inr (Fin 1)
   \<and> length ([(0, 0), (3, 4)] :: point list) \<noteq> length [1 :: real]"
  using eps_pos
  by (simp add: calculate_oks_def np_broadcast_def np_mean_def np_sum_def)

theorem shape_errors_of_calculate_oks_witness:
  "calculate_oks (Points [(0, 0)]) (Points [(0, 0), (3, 4)]) [1, 2] 1 = Inl AssertionError
   \<and> calculate_oks (Points [(0, 0), (3, 4)]) (Points [(0, 0), (3, 4)]) [1, 2, 3] 1
       = Inl ValueError
   \<and> (\<exists>score. calculate_oks (Points [(0, 0), (3, 4)]) (Points [(0, 0), (3, 4)]) [1] 1
         = Inr score)"
  using shape_errors_of_calculate_oks [of "Points [(0, 0)]" "Points [(0, 0), (3, 4)]" "[1, 2]" 1]
    shape_errors_of_calculate_oks [of _ _ "[1, 2, 3]" 1 "[(0, 0), (3, 4)]" "[(0, 0), (3, 4)]"]
    shape_errors_of_calculate_oks [of _ _ "[1]" 1 "[(0, 0), (3, 4)]" "[(0, 0), (3, 4)]"]
  by simp

section \<open>Range and frame of calculate\_oks\<close>








lemma calculate_oks_store_extends:
  assumes "p < length h" "g < length h" "s < length h"
    and "h ! p = KeypointArray pred_keypoints" "h ! g = KeypointArray gt_keypoints"
    and "h ! s = FloatArray sigmas"
  shows "\<exists>fresh. calculate_oks_store h p g s area
           = Some (calculate_oks pred_keypoints gt_keypoints sigmas area, h @ fresh)"
  using assms
  by (auto simp: calculate_oks_store_def calculate_oks_def alloc_def Let_def comp_def
      simp del: np_div.simps(1) split: sum.splits)

text \<open>
  Claim C10. A call of \<open>calculate_oks\<close> on three arrays of the store returns the value
  that depends on the contents of the three arrays and on \<open>bbox_area\<close> alone, and leaves
  every object that was in the store as it was, the three argument arrays among them (also
  when two arguments are the same array); a second call with the same arguments returns
  the same score.
\<close>

theorem calculate_oks_leaves_its_arguments:
  assumes "p < length h" "g < length h" "s < length h"
    and "h ! p = KeypointArray pred_keypoints" "h ! g = KeypointArray gt_keypoints"
    and "h ! s = FloatArray sigmas"
  shows "\<exists>h'. calculate_oks_store h p g s area
           = Some (calculate_oks pred_keypoints gt_keypoints sigmas area, h')
         \<and> take (length h) h' = h
         \<and> h' ! p = KeypointArray pred_keypoints \<and> h' ! g = KeypointArray gt_keypoints
         \<and> h' ! s = FloatArray sigmas
         \<and> (\<exists>h''. calculate_oks_store h' p g s area
               = Some (calculate_oks pred_keypoints gt_keypoints sigmas area, h''))"
proof -
  from calculate_oks_store_extends [OF assms] obtain fresh where
    first: "calculate_oks_store h p g s area
           = Some (calculate_oks pred_keypoints gt_keypoints sigmas area, h @ fresh)"
    by blast
  have same: "(h @ fresh) ! p = KeypointArray pred_keypoints"
    "(h @ fresh) ! g = KeypointArray gt_keypoints" "(h @ fresh) ! s = FloatArray sigmas"
    using assms by (simp_all add: nth_append)
  have "\<exists>fresh'. calculate_oks_store (h @ fresh) p g s area
           = Some (calculate_oks pred_keypoints gt_keypoints sigmas area, (h @ fresh) @ fresh')"
    using assms(1,2,3) same by (intro calculate_oks_store_extends) simp_all
  with first same show ?thesis by auto
qed

theorem calculate_oks_leaves_its_arguments_witness:
  "(0 :: nat) < length example_store \<and> (1 :: nat) < length example_store
   \<and> (2 :: nat) < length example_store
   \<and> example_store ! 0 = KeypointArray (Points [(0, 0), (3, 4)])
   \<and> example_store ! 1 = KeypointArray (Points [(0, 0), (0, 0)])
   \<and> example_store ! 2 = FloatArray [1, 2]
   \<and> (\<exists>h'. calculate_oks_store example_store 0 1 2 1
          = Some (calculate_oks (Points [(0, 0), (3, 4)]) (Points [(0, 0), (0, 0)]) [1, 2] 1, h')
        \<and> take 3 h' = example_store)"
proof -
  have e: "(0 :: nat) < length example_store" "(1 :: nat) < length example_store"
    "(2 :: nat) < length example_store"
    "example_store ! 0 = KeypointArray (Points [(0, 0), (3, 4)])"
    "example_store ! 1 = KeypointArray (Points [(0, 0), (0, 0)])"
    "example_store ! 2 = FloatArray [1, 2]"
    by (simp_all add: example_store_def)
  have "length example_store = 3" by (simp add: example_store_def)
  with calculate_oks_leaves_its_arguments [OF e, of 1] e show ?thesis by auto
qed

section \<open>Entries without reference keypoints, runs without scores\<close>

text \<open>
  Claim C4. The script does not do what the claim says. At a reference image in which no
  joint is detected, \<open>extract_pose\<close> returns the one-dimensional empty array of shape
  \<open>(0,)\<close>, where its docstring promises the shape \<open>[num_keypoints, 2]\<close>; the
  indexing \<open>gt_keypoints[:, 0]\<close> of the bounding-box computation then raises
  \<open>IndexError\<close>, and the run ends there: no skipped pair is recorded for the entry, the
  next entry is not processed and no summary is printed.
\<close>

theorem empty_reference_raises_index_error:
  "detected_map no_keypoints_env (os_path_join ground_truth_folder ''a.png'')
     = Inr [None, None, None]
   \<and> extract_pose no_keypoints_env (os_path_join ground_truth_folder ''a.png'') = Inr Empty1D
   \<and> shape Empty1D = [0]
   \<and> compute_bbox_area Empty1D = Inl IndexError
   \<and> loop_body no_keypoints_env ''a.png'' initial_state = Inl IndexError
   \<and> main no_keypoints_env = (\<lparr>stdout = [], oks_scores = []\<rparr>, Some IndexError)"
proof -
  have dm: "detected_map no_keypoints_env (os_path_join ground_truth_folder ''a.png'')
     = Inr [None, None, None]"
    by (simp add: no_keypoints_env_def reference_path_a)
  then have gt: "extract_pose no_keypoints_env (os_path_join ground_truth_folder ''a.png'')
     = Inr Empty1D"
    by (simp add: extract_pose_def np_array_def)
  have bbox: "compute_bbox_area Empty1D = Inl IndexError"
    by (simp add: compute_bbox_area_def and_then_def)
  have body: "loop_body no_keypoints_env ''a.png'' initial_state = Inl IndexError"
    unfolding loop_body_raises_iff
    by (simp add: candidate_path_a reference_path_a extract_pose_def no_keypoints_env_def
        np_array_def compute_bbox_area_def and_then_def)
  then have "main no_keypoints_env = (\<lparr>stdout = [], oks_scores = []\<rparr>, Some IndexError)"
    by (simp add: main_def no_keypoints_env_def ground_truth_folder_def initial_state_def)
  with dm gt bbox body show ?thesis by simp
qed

lemma main_raised:
  assumes "main e = (st, Some err)"
  shows "\<forall>l\<in>set (stdout st). pair_line l"
proof (cases "listdir e ground_truth_folder")
  case (Inl x)
  with assms show ?thesis by (auto simp: main_def initial_state_def)
next
  case (Inr names)
  with assms have loop: "batch_loop e (sort names) initial_state = (st, Some err)"
    by (auto simp: main_def split: prod.splits option.splits)
  have "oks_scores st = scores_of (stdout st) \<and> (\<forall>l\<in>set (stdout st). pair_line l)"
    by (rule batch_loop_invariant [OF loop]) (simp_all add: initial_state_def)
  then show ?thesis by simp
qed

text \<open>
  Claim C7, as amended. In a run that completes with no scored pair, the summary prints
  the average as \<open>nan\<close> (\<open>np.mean\<close> of the empty list) and the empty score list, never
  a number, and the lines before the summary are the not-found lines of the skipped
  entries. A run that ends with an exception prints per-pair lines only: no summary and
  no average at all, whether or not a pair was scored. As stated, the claim fails: when
  the image pipeline fails on the first image, no pair is scored and nothing is reported.
\<close>

theorem no_scored_pair_mean_is_nan:
  "(main e = (st, None) \<and> oks_scores st = [] \<longrightarrow>
      (\<exists>lines. stdout st = lines @ [SummaryHeader, AverageLine NaN, ScoresLine []]
         \<and> (\<forall>l\<in>set lines. \<exists>gt_file. l = NotFoundLine gt_file)))
   \<and> (main e = (st, Some err) \<longrightarrow>
        (\<forall>l\<in>set (stdout st). pair_line l) \<and> SummaryHeader \<notin> set (stdout st)
        \<and> (\<forall>m. AverageLine m \<notin> set (stdout st)))"
proof (intro conjI impI)
  assume a: "main e = (st, None) \<and> oks_scores st = []"
  from main_completed [of e st] a obtain lines where
    lines: "stdout st = lines @ [SummaryHeader, AverageLine (np_mean (scores_of lines)),
                          ScoresLine (scores_of lines)]"
    "oks_scores st = scores_of lines" "\<forall>l\<in>set lines. pair_line l"
    by blast
  have none: "scores_of lines = []"
    using lines(2) a by simp
  have "np_mean [] = NaN"
    by (simp add: np_mean_def np_sum_def)
  with lines(1) none only_not_found_lines [OF lines(3) none]
  show "\<exists>lines. stdout st = lines @ [SummaryHeader, AverageLine NaN, ScoresLine []]
         \<and> (\<forall>l\<in>set lines. \<exists>gt_file. l = NotFoundLine gt_file)"
    by auto
next
  assume "main e = (st, Some err)"
  then have p: "\<forall>l\<in>set (stdout st). pair_line l"
    by (rule main_raised)
  then show "\<forall>l\<in>set (stdout st). pair_line l" .
  from p show "SummaryHeader \<notin> set (stdout st)" by auto
  from p show "\<forall>m. AverageLine m \<notin> set (stdout st)" by auto
qed

theorem no_scored_pair_mean_is_nan_counterexample:
  "main unreadable_image_env = (\<lparr>stdout = [], oks_scores = []\<rparr>, Some ExtractorError)"
  by (simp add: main_def unreadable_image_env_def ground_truth_folder_def initial_state_def
      loop_body_def extract_pose_def and_then_def)

theorem no_scored_pair_mean_is_nan_witness:
  "main all_missing_env
     = (\<lparr>stdout = [NotFoundLine ''a.png'', SummaryHeader, AverageLine NaN, ScoresLine []],
         oks_scores = []\<rparr>, None)
   \<and> (\<exists>lines. [NotFoundLine ''a.png'', SummaryHeader, AverageLine NaN, ScoresLine []]
         = lines @ [SummaryHeader, AverageLine NaN, ScoresLine []])
   \<and> main unreadable_image_env = (\<lparr>stdout = [], oks_scores = []\<rparr>, Some ExtractorError)
   \<and> SummaryHeader \<notin> set (stdout \<lparr>stdout = [], oks_scores = []\<rparr>)"
proof -
  have run: "main all_missing_env
     = (\<lparr>stdout = [NotFoundLine ''a.png'', SummaryHeader, AverageLine NaN, ScoresLine []],
         oks_scores = []\<rparr>, None)"
    by (simp add: main_def all_missing_env_def ground_truth_folder_def initial_state_def
        loop_body_def print_summary_def np_mean_def np_sum_def)
  have stop: "main unreadable_image_env
     = (\<lparr>stdout = [], oks_scores = []\<rparr>, Some ExtractorError)"
    by (simp add: main_def unreadable_image_env_def ground_truth_folder_def initial_state_def
        loop_body_def extract_pose_def and_then_def)
  from no_scored_pair_mean_is_nan [where e = all_missing_env] run
    no_scored_pair_mean_is_nan [where e = unreadable_image_env and err = ExtractorError] stop
  show ?thesis by auto
qed

section \<open>Monotonicity of calculate\_oks in binary64\<close>

lemma exp_b64_mono: "x \<le> y \<Longrightarrow> exp_b64 x \<le> exp_b64 y"
  by (simp add: exp_b64_def)

lemma exp_b64_zero: "exp_b64 0 = 1"
  by (simp add: exp_b64_def)

lemma calculate_oks_b64_valid:
  assumes "length predicted = length reference"
    and "length sigmas = length reference"
    and "\<forall>s\<in>set sigmas. 0 < s"
    and "0 \<le> area"
  shows "calculate_oks_b64 (Points predicted) (Points reference) sigmas area
         = Inr (np_mean (map Fin (map (b64_similarity predicted reference sigmas area)
                  [0..<length reference])))"
proof -
  let ?n = "length reference"
  have "calculate_oks_b64 (Points predicted) (Points reference) sigmas area
        = Inr (np_mean (map np_exp_b64 (map (\<lambda>i. Fin (- spec_sq_dist predicted reference i
                 / spec_variance sigmas area i)) [0..<?n])))"
    by (simp only: calculate_oks_b64_def Let_def dists_Points [OF assms(1)] sum.case
      variances_nth [OF assms(2)] quotients_finite [OF assms(2,3,4)] shape.simps assms(1)
      simp_thms if_False)
  also have "map np_exp_b64 (map (\<lambda>i. Fin (- spec_sq_dist predicted reference i
                 / spec_variance sigmas area i)) [0..<?n])
             = map Fin (map (b64_similarity predicted reference sigmas area) [0..<?n])"
    by (simp add: b64_similarity_def)
  finally show ?thesis .
qed

lemma calculate_oks_b64_score:
  assumes "length ps = length qs" "length sigmas = length qs" "qs \<noteq> []"
    "\<forall>s\<in>set sigmas. 0 < s" "0 \<le> area"
  shows "calculate_oks_b64 (Points ps) (Points qs) sigmas area
         = Inr (Fin (sum_list (map (b64_similarity ps qs sigmas area) [0..<length qs])
                  / real (length qs)))"
  unfolding calculate_oks_b64_valid [OF assms(1,2,4,5)]
  using assms(3) by (simp only: np_mean_Fin_upt length_0_conv if_False)

text \<open>Where no quotient is below \<open>-746\<close> the two exponentials agree.\<close>

lemma exp_b64_exact: "- 746 \<le> x \<Longrightarrow> exp_b64 x = exp x"
  by (simp add: exp_b64_def)

text \<open>
  Claim C9, as amended. For a reference of \<open>K \<ge> 1\<close> keypoints, \<open>K\<close> positive sigmas and
  a non-negative area, the score is exactly 1 when the predicted keypoints are the
  reference keypoints, and it is non-increasing in any single squared distance: of two
  predictions whose squared distances to the reference agree at every index but \<open>i\<close>, the
  one with the larger distance at \<open>i\<close> has no larger score. As stated, the claim fails:
  the decrease is not strict, since a joint displaced by 190 or by 250 pixels (sigma 0.25,
  area 380) has similarity \<open>0.0\<close> either way and the two scores are equal; and with no
  keypoint the score is \<open>nan\<close>, not 1.
\<close>

theorem calculate_oks_b64_monotone_and_one:
  assumes "length sigmas = length reference" "reference \<noteq> []"
    and "\<forall>s\<in>set sigmas. 0 < s" and "0 \<le> area"
  shows "calculate_oks_b64 (Points reference) (Points reference) sigmas area = Inr (Fin 1)
       \<and> (\<forall>predicted predicted' i.
            length predicted = length reference \<and> length predicted' = length reference
            \<and> i < length reference
            \<and> (\<forall>j<length reference. j \<noteq> i \<longrightarrow>
                  spec_sq_dist predicted' reference j = spec_sq_dist predicted reference j)
            \<and> spec_sq_dist predicted reference i \<le> spec_sq_dist predicted' reference i
            \<longrightarrow> (\<exists>score score'.
                  calculate_oks_b64 (Points predicted) (Points reference) sigmas area
                    = Inr (Fin score)
                  \<and> calculate_oks_b64 (Points predicted') (Points reference) sigmas area
                    = Inr (Fin score')
                  \<and> score' \<le> score))"
proof (intro conjI allI impI)
  let ?n = "length reference"
  have "map (b64_similarity reference reference sigmas area) [0..<?n] = map (\<lambda>i. 1) [0..<?n]"
    by (simp add: b64_similarity_def spec_sq_dist_def exp_b64_zero)
  then have "calculate_oks_b64 (Points reference) (Points reference) sigmas area
             = Inr (Fin (sum_list (map (\<lambda>i. 1) [0..<?n]) / real ?n))"
    by (simp only: calculate_oks_b64_score [OF refl assms])
  then show "calculate_oks_b64 (Points reference) (Points reference) sigmas area = Inr (Fin 1)"
    using assms(2) by (simp add: sum_list_triv)
next
  fix predicted predicted' i
  let ?n = "length reference"
  let ?f = "b64_similarity predicted reference sigmas area"
  let ?f' = "b64_similarity predicted' reference sigmas area"
  assume a: "length predicted = length reference \<and> length predicted' = length reference
            \<and> i < length reference
            \<and> (\<forall>j<length reference. j \<noteq> i \<longrightarrow>
                  spec_sq_dist predicted' reference j = spec_sq_dist predicted reference j)
            \<and> spec_sq_dist predicted reference i \<le> spec_sq_dist predicted' reference i"
  have "0 < spec_variance sigmas area i"
    using a assms(1,3,4) by (intro spec_variance_pos) simp_all
  then have "- spec_sq_dist predicted' reference i / spec_variance sigmas area i
             \<le> - spec_sq_dist predicted reference i / spec_variance sigmas area i"
    using a by (simp add: divide_right_mono)
  then have at_i: "?f' i \<le> ?f i"
    unfolding b64_similarity_def by (rule exp_b64_mono)
  have le: "\<And>j. j \<in> {0..<?n} \<Longrightarrow> ?f' j \<le> ?f j"
  proof -
    fix j assume "j \<in> {0..<?n}"
    then show "?f' j \<le> ?f j"
      using a at_i by (cases "j = i") (simp_all add: b64_similarity_def)
  qed
  have "sum ?f' {0..<?n} \<le> sum ?f {0..<?n}"
    by (intro sum_mono le)
  then have "sum_list (map ?f' [0..<?n]) / real ?n \<le> sum_list (map ?f [0..<?n]) / real ?n"
    by (simp add: interv_sum_list_conv_sum_set_nat divide_right_mono)
  moreover have "calculate_oks_b64 (Points predicted) (Points reference) sigmas area
        = Inr (Fin (sum_list (map ?f [0..<?n]) / real ?n))"
    using a assms by (intro calculate_oks_b64_score) simp_all
  moreover have "calculate_oks_b64 (Points predicted') (Points reference) sigmas area
        = Inr (Fin (sum_list (map ?f' [0..<?n]) / real ?n))"
    using a assms by (intro calculate_oks_b64_score) simp_all
  ultimately show "\<exists>score score'.
                  calculate_oks_b64 (Points predicted) (Points reference) sigmas area
                    = Inr (Fin score)
                  \<and> calculate_oks_b64 (Points predicted') (Points reference) sigmas area
                    = Inr (Fin score')
                  \<and> score' \<le> score"
    by blast
qed

theorem calculate_oks_b64_monotone_and_one_counterexample:
  "calculate_oks_b64 (Points (reference_pose[1 := (201, 4)])) (Points reference_pose)
      coco_sigmas 380 = Inr (Fin (16 / 17))
   \<and> calculate_oks_b64 (Points (reference_pose[1 := (261, 4)])) (Points reference_pose)
      coco_sigmas 380 = Inr (Fin (16 / 17))
   \<and> spec_sq_dist (reference_pose[1 := (201, 4)]) reference_pose 1 = 36100
   \<and> spec_sq_dist (reference_pose[1 := (261, 4)]) reference_pose 1 = 62500
   \<and> compute_bbox_area (Points reference_pose) = Inr 380
   \<and> calculate_oks_b64 (Points []) (Points []) [] 380 = Inr NaN"
proof (intro conjI)
  show "calculate_oks_b64 (Points (reference_pose[1 := (201, 4)])) (Points reference_pose)
      coco_sigmas 380 = Inr (Fin (16 / 17))"
    by (simp add: calculate_oks_b64_def reference_pose_def full_skeleton_def coco_sigmas_def
        np_broadcast_def np_mean_def np_sum_def exp_b64_def eps_def power2_eq_square)
  show "calculate_oks_b64 (Points (reference_pose[1 := (261, 4)])) (Points reference_pose)
      coco_sigmas 380 = Inr (Fin (16 / 17))"
    by (simp add: calculate_oks_b64_def reference_pose_def full_skeleton_def coco_sigmas_def
        np_broadcast_def np_mean_def np_sum_def exp_b64_def eps_def power2_eq_square)
  show "spec_sq_dist (reference_pose[1 := (201, 4)]) reference_pose 1 = 36100"
    by (simp add: spec_sq_dist_def reference_pose_def full_skeleton_def)
  show "spec_sq_dist (reference_pose[1 := (261, 4)]) reference_pose 1 = 62500"
    by (simp add: spec_sq_dist_def reference_pose_def full_skeleton_def)
  show "compute_bbox_area (Points reference_pose) = Inr 380"
    unfolding reference_pose_def by (rule full_skeleton_bbox)
  show "calculate_oks_b64 (Points []) (Points []) [] 380 = Inr NaN"
    by (simp add: calculate_oks_b64_def np_broadcast_def np_mean_def np_sum_def)
qed

theorem calculate_oks_b64_monotone_and_one_witness:
  "length [1, 2 :: real] = length ([(0, 0), (0, 0)] :: point list)
   \<and> calculate_oks_b64 (Points [(0, 0), (0, 0)]) (Points [(0, 0), (0, 0)]) [1, 2] 1
       = Inr (Fin 1)
   \<and> spec_sq_dist [(0, 0), (3, 4)] [(0, 0), (0, 0)] 0 = 0
   \<and> spec_sq_dist [(1, 0), (3, 4)] [(0, 0), (0, 0)] 0 = 1
   \<and> spec_sq_dist [(0, 0), (3, 4)] [(0, 0), (0, 0)] 1 = 25
   \<and> spec_sq_dist [(1, 0), (3, 4)] [(0, 0), (0, 0)] 1 = 25
   \<and> (\<exists>score score'.
         calculate_oks_b64 (Points [(0, 0), (3, 4)]) (Points [(0, 0), (0, 0)]) [1, 2] 1
           = Inr (Fin score)
         \<and> calculate_oks_b64 (Points [(1, 0), (3, 4)]) (Points [(0, 0), (0, 0)]) [1, 2] 1
           = Inr (Fin score')
         \<and> score' \<le> score)"
proof -
  have d: "spec_sq_dist [(0, 0), (3, 4)] [(0, 0), (0, 0)] 0 = 0"
    "spec_sq_dist [(1, 0), (3, 4)] [(0, 0), (0, 0)] 0 = 1"
    "spec_sq_dist [(0, 0), (3, 4)] [(0, 0), (0, 0)] 1 = 25"
    "spec_sq_dist [(1, 0), (3, 4)] [(0, 0), (0, 0)] 1 = 25"
    by (simp_all add: spec_sq_dist_def)
  have others: "\<forall>j<length ([(0, 0), (0, 0)] :: point list). j \<noteq> 0 \<longrightarrow>
      spec_sq_dist [(1, 0), (3, 4)] [(0, 0), (0, 0)] j
        = spec_sq_dist [(0, 0), (3, 4)] [(0, 0), (0, 0)] j"
    using d by (simp add: less_Suc_eq)
  let ?ref = "[(0, 0), (0, 0)] :: point list"
  let ?p = "[(0, 0), (3, 4)] :: point list"
  let ?p' = "[(1, 0), (3, 4)] :: point list"
  have both: "calculate_oks_b64 (Points ?ref) (Points ?ref) [1, 2] 1 = Inr (Fin 1)
       \<and> (\<forall>predicted predicted' i.
            length predicted = length ?ref \<and> length predicted' = length ?ref
            \<and> i < length ?ref
            \<and> (\<forall>j<length ?ref. j \<noteq> i \<longrightarrow>
                  spec_sq_dist predicted' ?ref j = spec_sq_dist predicted ?ref j)
            \<and> spec_sq_dist predicted ?ref i \<le> spec_sq_dist predicted' ?ref i
            \<longrightarrow> (\<exists>score score'.
                  calculate_oks_b64 (Points predicted) (Points ?ref) [1, 2] 1 = Inr (Fin score)
                  \<and> calculate_oks_b64 (Points predicted') (Points ?ref) [1, 2] 1
                      = Inr (Fin score')
                  \<and> score' \<le> score))"
    by (rule calculate_oks_b64_monotone_and_one) simp_all
  have prem: "length ?p = length ?ref \<and> length ?p' = length ?ref \<and> 0 < length ?ref
            \<and> (\<forall>j<length ?ref. j \<noteq> 0 \<longrightarrow>
                  spec_sq_dist ?p' ?ref j = spec_sq_dist ?p ?ref j)
            \<and> spec_sq_dist ?p ?ref 0 \<le> spec_sq_dist ?p' ?ref 0"
    using others d by simp
  from both prem have "\<exists>score score'.
         calculate_oks_b64 (Points ?p) (Points ?ref) [1, 2] 1 = Inr (Fin score)
         \<and> calculate_oks_b64 (Points ?p') (Points ?ref) [1, 2] 1 = Inr (Fin score')
         \<and> score' \<le> score"
    by blast
  moreover from both have "calculate_oks_b64 (Points ?ref) (Points ?ref) [1, 2] 1 = Inr (Fin 1)"
    by (rule conjunct1)
  ultimately show ?thesis using d by simp
qed

end
